theory Spec2Isabelle
  imports Main "HOL-Library.AList" "HOL-Library.Sublist"
begin

section \<open>The link configuration wizard (config.py)\<close>

text \<open>
  The script edits the list stored under the key \<open>links\<close> of config.json through
  prompts on standard input, writes the file back and runs git. The model below follows
  config.py function by function.

  \<^item> JSON values are the datatype \<open>json\<close>; numbers are integers (a float only ever
    passes through the program untouched).
  \<^item> A Python dict is an association list in insertion order; \<open>d[k] = v\<close> is
    \<open>AList.update\<close>, which overwrites in place or appends at the end, as Python does.
  \<^item> The elements of the links list are Python objects with an identity: the list holds
    addresses into a store \<open>heap\<close> (an address is a position of the store), so that two
    entries of the list may be the same object.
  \<^item> The configuration in memory is an object whose \<open>links\<close> member is absent or a
    list; its other members are carried along unchanged.
  \<^item> \<open>input()\<close> takes the next line of \<open>stdin\<close>; it raises EOFError when there is
    none and UnicodeDecodeError, which is a ValueError, when the bytes of the line do not
    decode. What the script prints is not modelled.
  \<^item> An exception leaves the state as it is at the raise: a program returns its
    outcome, an error or a value, together with the state.
\<close>

subsection \<open>Values, errors and the state\<close>

type_synonym addr = nat

datatype json =
    JNull
  | JBool bool
  | JInt int
  | JStr string
  | JList "json list"
  | JObj "(string \<times> json) list"

datatype error =
    EOFError
  | KeyError string
  | TypeError
  | ValueError
  | IndexError
  | SystemExit int
  | CalledProcessError
  | FileNotFoundError
  | UnicodeDecodeError

text \<open>
  \<open>except cls\<close> catches the instances of \<open>cls\<close>; of the errors above only
  UnicodeDecodeError is an instance of another one, ValueError.
\<close>

definition isinstance :: "error \<Rightarrow> error \<Rightarrow> bool" where
  "isinstance e cls \<longleftrightarrow> e = cls \<or> (e = UnicodeDecodeError \<and> cls = ValueError)"

datatype proc_result = Exit0 | ExitNonzero | NoSuchProgram

text \<open>A line of standard input: text, or bytes that do not decode.\<close>

datatype line = Text string | Undecodable

record config =
  links :: "addr list option"
  others :: "(string \<times> json) list"

record world =
  stdin :: "line list"
  config_file :: "string option"
  cfg :: config
  heap :: "json list"
  writes :: "string list"
  subprocess :: "string list \<Rightarrow> proc_result"
  commands :: "string list list"
  clock :: string

type_synonym 'a prog = "world \<Rightarrow> (error + 'a) \<times> world"

definition ret :: "'a \<Rightarrow> 'a prog" where
  "ret x = (\<lambda>w. (Inr x, w))"

definition raise :: "error \<Rightarrow> 'a prog" where
  "raise e = (\<lambda>w. (Inl e, w))"

definition seq :: "'a prog \<Rightarrow> ('a \<Rightarrow> 'b prog) \<Rightarrow> 'b prog" where
  "seq m f = (\<lambda>w. case m w of (Inl e, w') \<Rightarrow> (Inl e, w') | (Inr x, w') \<Rightarrow> f x w')"

definition lift :: "error + 'a \<Rightarrow> 'a prog" where
  "lift r = (\<lambda>w. (r, w))"

definition input :: "string prog" where
  "input = (\<lambda>w. case stdin w of
                  [] \<Rightarrow> (Inl EOFError, w)
                | Text l # ls \<Rightarrow> (Inr l, w\<lparr>stdin := ls\<rparr>)
                | Undecodable # ls \<Rightarrow> (Inl UnicodeDecodeError, w\<lparr>stdin := ls\<rparr>))"

subsection \<open>Strings: \<open>str.strip\<close>, \<open>str.split(',')\<close> and \<open>int\<close>\<close>

text \<open>
  A character is a code point below 256. The whitespace of \<open>str.strip\<close> there is
  9 to 13, 28 to 32, 133 and 160. \<open>int(s)\<close> skips a narrower set around the number,
  9 to 13, 32, 133 and 160, so that a line ending in the character 31 is not an integer.
  Between them it accepts an optional sign and decimal digits with single underscores
  between digits, at most \<open>int_max_str_digits\<close> digits (4300 unless configured
  otherwise); it raises ValueError on anything else.
\<close>

definition isspace :: "char \<Rightarrow> bool" where
  "isspace c \<longleftrightarrow> (of_char c :: nat) \<in> set [9, 10, 11, 12, 13, 28, 29, 30, 31, 32, 133, 160]"

definition strip :: "string \<Rightarrow> string" where
  "strip s = rev (dropWhile isspace (rev (dropWhile isspace s)))"

fun split_comma :: "string \<Rightarrow> string list" where
  "split_comma [] = [[]]"
| "split_comma (c # cs) =
     (if c = CHR '','' then [] # split_comma cs
      else (case split_comma cs of
              [] \<Rightarrow> [[c]]
            | p # ps \<Rightarrow> (c # p) # ps))"

definition isdigit :: "char \<Rightarrow> bool" where
  "isdigit c \<longleftrightarrow> 48 \<le> (of_char c :: nat) \<and> (of_char c :: nat) \<le> 57"

definition digit_value :: "char \<Rightarrow> nat" where
  "digit_value c = of_char c - 48"

fun parse_digits :: "bool \<Rightarrow> nat \<Rightarrow> string \<Rightarrow> nat option" where
  "parse_digits after_digit acc [] = (if after_digit then Some acc else None)"
| "parse_digits after_digit acc (c # cs) =
     (if isdigit c then parse_digits True (10 * acc + digit_value c) cs
      else if c = CHR ''_'' \<and> after_digit then parse_digits False acc cs
      else None)"

definition int_space :: "char \<Rightarrow> bool" where
  "int_space c \<longleftrightarrow> (of_char c :: nat) \<in> set [9, 10, 11, 12, 13, 32, 133, 160]"

definition int_max_str_digits :: nat where
  "int_max_str_digits = 4300"

definition int_digits :: "string \<Rightarrow> nat option" where
  "int_digits cs =
     (if int_max_str_digits < length (filter isdigit cs) then None
      else parse_digits False 0 cs)"

definition py_int :: "string \<Rightarrow> error + int" where
  "py_int s =
     (case rev (dropWhile int_space (rev (dropWhile int_space s))) of
        [] \<Rightarrow> Inl ValueError
      | c # cs \<Rightarrow>
          (if c = CHR ''-'' then
             (case int_digits cs of None \<Rightarrow> Inl ValueError | Some n \<Rightarrow> Inr (- int n))
           else if c = CHR ''+'' then
             (case int_digits cs of None \<Rightarrow> Inl ValueError | Some n \<Rightarrow> Inr (int n))
           else
             (case int_digits (c # cs) of None \<Rightarrow> Inl ValueError | Some n \<Rightarrow> Inr (int n))))"

subsection \<open>Python containers\<close>

definition deref :: "json list \<Rightarrow> addr \<Rightarrow> json" where
  "deref h a = (if a < length h then h ! a else JNull)"

text \<open>\<open>x[k]\<close> for a string key: only a dict has string keys.\<close>

definition getitem :: "json \<Rightarrow> string \<Rightarrow> error + json" where
  "getitem x k =
     (case x of
        JObj kvs \<Rightarrow> (case map_of kvs k of None \<Rightarrow> Inl (KeyError k) | Some v \<Rightarrow> Inr v)
      | _ \<Rightarrow> Inl TypeError)"

text \<open>\<open>x[k] = v\<close> for a string key.\<close>

definition setitem :: "json \<Rightarrow> string \<Rightarrow> json \<Rightarrow> error + json" where
  "setitem x k v =
     (case x of
        JObj kvs \<Rightarrow> Inr (JObj (AList.update k v kvs))
      | _ \<Rightarrow> Inl TypeError)"

text \<open>\<open>xs[i]\<close> for a list, where \<open>xs[-1]\<close> is the last element.\<close>

definition list_index :: "'a list \<Rightarrow> int \<Rightarrow> error + 'a" where
  "list_index xs i =
     (if 0 \<le> i \<and> i < int (length xs) then Inr (xs ! nat i)
      else if i < 0 \<and> - int (length xs) \<le> i then Inr (xs ! nat (int (length xs) + i))
      else Inl IndexError)"

text \<open>\<open>not config.get("links")\<close>: the key is missing or the list is empty.\<close>

definition no_links :: "config \<Rightarrow> bool" where
  "no_links c = (case links c of None \<Rightarrow> True | Some as \<Rightarrow> as = [])"

text \<open>\<open>config["links"]\<close> raises KeyError when the key is missing.\<close>

definition the_links :: "addr list prog" where
  "the_links = (\<lambda>w. case links (cfg w) of
                      None \<Rightarrow> (Inl (KeyError ''links''), w)
                    | Some as \<Rightarrow> (Inr as, w))"

text \<open>\<open>config["links"] = new\<close>.\<close>

definition set_links :: "addr list \<Rightarrow> unit prog" where
  "set_links new = (\<lambda>w. (Inr (), w\<lparr>cfg := (cfg w)\<lparr>links := Some new\<rparr>\<rparr>))"

text \<open>\<open>config["links"].append(obj)\<close>: the new object gets the next free address.\<close>

definition links_append :: "json \<Rightarrow> unit prog" where
  "links_append obj =
     seq the_links (\<lambda>as w.
       (Inr (), w\<lparr>heap := heap w @ [obj],
                  cfg := (cfg w)\<lparr>links := Some (as @ [length (heap w)])\<rparr>\<rparr>))"

text \<open>\<open>config["links"].pop(i)\<close>.\<close>

definition links_pop :: "int \<Rightarrow> addr prog" where
  "links_pop i =
     seq the_links (\<lambda>as.
     seq (lift (list_index as i)) (\<lambda>a.
       let j = nat (if i < 0 then int (length as) + i else i)
       in seq (set_links (take j as @ drop (Suc j) as)) (\<lambda>_. ret a)))"

text \<open>\<open>link[k]\<close> and \<open>link[k] = v\<close> for the object at an address.\<close>

definition field :: "addr \<Rightarrow> string \<Rightarrow> json prog" where
  "field a k = (\<lambda>w. (getitem (deref (heap w) a) k, w))"

definition store :: "addr \<Rightarrow> string \<Rightarrow> json \<Rightarrow> unit prog" where
  "store a k v = (\<lambda>w. case setitem (deref (heap w) a) k v of
                        Inl e \<Rightarrow> (Inl e, w)
                      | Inr obj \<Rightarrow> (Inr (), w\<lparr>heap := (heap w)[a := obj]\<rparr>))"

text \<open>\<open>try: body except errs: handler\<close>.\<close>

definition try_except :: "'a prog \<Rightarrow> error list \<Rightarrow> 'a prog \<Rightarrow> 'a prog" where
  "try_except body errs handler =
     (\<lambda>w. case body w of
            (Inl e, w') \<Rightarrow> if list_ex (isinstance e) errs then handler w' else (Inl e, w')
          | (Inr x, w') \<Rightarrow> (Inr x, w'))"

subsection \<open>Reading and writing config.json\<close>

text \<open>
  \<open>json.load\<close> and \<open>json.dump\<close> are library code: \<open>loads\<close> gives the value a text
  parses to, or nothing for invalid JSON, and \<open>dumps\<close> the text of a value. Opening the
  file fails only when it is missing.
\<close>

definition load_config :: "(string \<Rightarrow> json option) \<Rightarrow> json prog" where
  "load_config loads =
     (\<lambda>w. case config_file w of
            None \<Rightarrow> (Inr (JObj [(''links'', JList [])]), w)
          | Some text \<Rightarrow>
              (case loads text of
                 None \<Rightarrow> (Inl (SystemExit 1), w)
               | Some j \<Rightarrow> (Inr j, w)))"

text \<open>The JSON value of the configuration in memory, as \<open>json.dump\<close> sees it.\<close>

definition to_json :: "config \<Rightarrow> json list \<Rightarrow> json" where
  "to_json c h =
     JObj ((case links c of
              None \<Rightarrow> []
            | Some as \<Rightarrow> [(''links'', JList (map (deref h) as))]) @ others c)"

definition save_config :: "(json \<Rightarrow> string) \<Rightarrow> unit prog" where
  "save_config dumps =
     (\<lambda>w. let text = dumps (to_json (cfg w) (heap w))
          in (Inr (), w\<lparr>config_file := Some text, writes := writes w @ [text]\<rparr>))"

subsection \<open>The menu operations\<close>

text \<open>
  \<open>display_current_links\<close> reads \<open>link['name']\<close> and \<open>link['url']\<close> of every entry
  in turn; \<open>link.get('icon', ...)\<close> cannot fail once these have succeeded.
\<close>

fun show_links :: "json list \<Rightarrow> addr list \<Rightarrow> error + unit" where
  "show_links h [] = Inr ()"
| "show_links h (a # as) =
     (case getitem (deref h a) ''name'' of
        Inl e \<Rightarrow> Inl e
      | Inr _ \<Rightarrow>
          (case getitem (deref h a) ''url'' of
             Inl e \<Rightarrow> Inl e
           | Inr _ \<Rightarrow> show_links h as))"

definition display_current_links :: "unit prog" where
  "display_current_links =
     (\<lambda>w. if no_links (cfg w) then ret () w
          else seq the_links (\<lambda>as w. (show_links (heap w) as, w)) w)"

definition add_new_link :: "bool prog" where
  "add_new_link =
     seq input (\<lambda>line1. let name = strip line1 in
     if name = [] then ret False else
     seq input (\<lambda>line2. let url = strip line2 in
     if url = [] then ret False else
     seq input (\<lambda>line3.
     let icon = (if strip line3 = [] then ''fas fa-link'' else strip line3);
         new_link = JObj [(''name'', JStr name), (''url'', JStr url), (''icon'', JStr icon)]
     in seq (links_append new_link) (\<lambda>_. ret True))))"

definition remove_link :: "bool prog" where
  "remove_link =
     (\<lambda>w. if no_links (cfg w) then ret False w else
     seq display_current_links (\<lambda>_.
     try_except
       (seq input (\<lambda>line.
        seq (lift (py_int line)) (\<lambda>choice.
        seq the_links (\<lambda>as.
        if 1 \<le> choice \<and> choice \<le> int (length as) then
          seq (links_pop (choice - 1)) (\<lambda>removed.
          seq (field removed ''name'') (\<lambda>_. ret True))
        else ret False))))
       [ValueError]
       (ret False)) w)"

text \<open>The body of the \<open>if\<close> in \<open>edit_link\<close>, for the selected object \<open>link\<close>.\<close>

definition edit_fields :: "addr \<Rightarrow> bool prog" where
  "edit_fields link =
     seq (field link ''name'') (\<lambda>_.
     seq (field link ''name'') (\<lambda>_.
     seq input (\<lambda>line1. let new_name = strip line1 in
     seq (if new_name \<noteq> [] then store link ''name'' (JStr new_name) else ret ()) (\<lambda>_.
     seq (field link ''url'') (\<lambda>_.
     seq input (\<lambda>line2. let new_url = strip line2 in
     seq (if new_url \<noteq> [] then store link ''url'' (JStr new_url) else ret ()) (\<lambda>_.
     seq input (\<lambda>line3. let new_icon = strip line3 in
     seq (if new_icon \<noteq> [] then store link ''icon'' (JStr new_icon) else ret ()) (\<lambda>_.
     seq (field link ''name'') (\<lambda>_. ret True))))))))))"

definition edit_link :: "bool prog" where
  "edit_link =
     (\<lambda>w. if no_links (cfg w) then ret False w else
     seq display_current_links (\<lambda>_.
     try_except
       (seq input (\<lambda>line.
        seq (lift (py_int line)) (\<lambda>choice.
        seq the_links (\<lambda>as.
        if 1 \<le> choice \<and> choice \<le> int (length as) then
          seq (lift (list_index as (choice - 1))) edit_fields
        else ret False))))
       [ValueError]
       (ret False)) w)"

text \<open>\<open>[int(i.strip()) - 1 for i in parts]\<close> and \<open>[links[i] for i in order_indices]\<close>.\<close>

fun parse_indices :: "string list \<Rightarrow> error + int list" where
  "parse_indices [] = Inr []"
| "parse_indices (p # ps) =
     (case py_int (strip p) of
        Inl e \<Rightarrow> Inl e
      | Inr n \<Rightarrow>
          (case parse_indices ps of
             Inl e \<Rightarrow> Inl e
           | Inr ns \<Rightarrow> Inr ((n - 1) # ns)))"

fun pick :: "'a list \<Rightarrow> int list \<Rightarrow> error + 'a list" where
  "pick xs [] = Inr []"
| "pick xs (i # is) =
     (case list_index xs i of
        Inl e \<Rightarrow> Inl e
      | Inr x \<Rightarrow>
          (case pick xs is of
             Inl e \<Rightarrow> Inl e
           | Inr ys \<Rightarrow> Inr (x # ys)))"

definition reorder_links :: "bool prog" where
  "reorder_links =
     (\<lambda>w. if no_links (cfg w) then ret False w else
     seq display_current_links (\<lambda>_.
     try_except
       (seq the_links (\<lambda>_.
        seq input (\<lambda>line. let order_input = strip line in
        seq (lift (parse_indices (split_comma order_input))) (\<lambda>order_indices.
        seq the_links (\<lambda>as.
        if set order_indices \<noteq> set (map int [0..<length as]) then ret False
        else
          seq (lift (pick as order_indices)) (\<lambda>new.
          seq (set_links new) (\<lambda>_. ret True)))))))
       [ValueError, IndexError]
       (ret False)) w)"

subsection \<open>Git\<close>

text \<open>
  \<open>subprocess.run(args, check=True)\<close> raises CalledProcessError when the command exits
  with a non-zero status and FileNotFoundError when the program does not exist. The
  outcome of a command is given by \<open>subprocess\<close>; \<open>commands\<close> records what was run.
\<close>

definition CONFIG_FILE :: string where
  "CONFIG_FILE = ''config.json''"

definition run :: "string list \<Rightarrow> unit prog" where
  "run args =
     (\<lambda>w. let w' = w\<lparr>commands := commands w @ [args]\<rparr>
          in case subprocess w args of
               Exit0 \<Rightarrow> (Inr (), w')
             | ExitNonzero \<Rightarrow> (Inl CalledProcessError, w')
             | NoSuchProgram \<Rightarrow> (Inl FileNotFoundError, w'))"

definition now :: "string prog" where
  "now = (\<lambda>w. (Inr (clock w), w))"

definition git_operations :: "bool prog" where
  "git_operations =
     seq (try_except
            (seq (run [''git'', ''status'']) (\<lambda>_. ret True))
            [CalledProcessError, FileNotFoundError]
            (ret False)) (\<lambda>is_repo.
     if \<not> is_repo then ret False else
     seq input (\<lambda>line.
     seq (if strip line = []
          then seq now (\<lambda>t. ret (''Update Vantal Links configuration - '' @ t))
          else ret (strip line)) (\<lambda>commit_msg.
     try_except
       (seq (run [''git'', ''add'', CONFIG_FILE]) (\<lambda>_.
        seq (run [''git'', ''commit'', ''-m'', commit_msg]) (\<lambda>_.
        seq (run [''git'', ''push'']) (\<lambda>_. ret True))))
       [CalledProcessError]
       (ret False))))"

subsection \<open>The main menu\<close>

datatype loop_ctl = Continue | Break

text \<open>The \<open>if\<close>/\<open>elif\<close> chain on the stripped choice.\<close>

definition menu_choice :: "(json \<Rightarrow> string) \<Rightarrow> string \<Rightarrow> loop_ctl prog" where
  "menu_choice dumps choice =
     (if choice = ''1'' then
        seq display_current_links (\<lambda>_. ret Continue)
      else if choice = ''2'' then
        seq add_new_link (\<lambda>ok.
        seq (if ok then save_config dumps else ret ()) (\<lambda>_. ret Continue))
      else if choice = ''3'' then
        seq edit_link (\<lambda>ok.
        seq (if ok then save_config dumps else ret ()) (\<lambda>_. ret Continue))
      else if choice = ''4'' then
        seq remove_link (\<lambda>ok.
        seq (if ok then save_config dumps else ret ()) (\<lambda>_. ret Continue))
      else if choice = ''5'' then
        seq reorder_links (\<lambda>ok.
        seq (if ok then save_config dumps else ret ()) (\<lambda>_. ret Continue))
      else if choice = ''6'' then
        seq (save_config dumps) (\<lambda>_. ret Continue)
      else if choice = ''7'' then
        seq (save_config dumps) (\<lambda>_.
        seq git_operations (\<lambda>_. ret Continue))
      else if choice = ''8'' then ret Break
      else ret Continue)"

text \<open>One round of the \<open>while True\<close> loop: the choice, its branch, "Press Enter".\<close>

definition menu_round :: "(json \<Rightarrow> string) \<Rightarrow> loop_ctl prog" where
  "menu_round dumps =
     seq input (\<lambda>line.
     seq (menu_choice dumps (strip line)) (\<lambda>ctl.
     case ctl of
       Break \<Rightarrow> ret Break
     | Continue \<Rightarrow> seq input (\<lambda>_. ret Continue)))"

text \<open>
  The \<open>while True\<close> loop of \<open>main_menu\<close>, on the configuration in memory. Every round
  reads at least one line, so on a finite input the loop ends: with choice 8, or with
  the EOFError of \<open>input()\<close>.
\<close>

function main_loop :: "(json \<Rightarrow> string) \<Rightarrow> world \<Rightarrow> (error + unit) \<times> world" where
  "main_loop dumps w =
     (case menu_round dumps w of
        (Inl e, w') \<Rightarrow> (Inl e, w')
      | (Inr Break, w') \<Rightarrow> (Inr (), w')
      | (Inr Continue, w') \<Rightarrow> main_loop dumps w')"
  by pat_completeness auto

subsection \<open>Well-formed link lists\<close>

text \<open>
  A link is an object with the keys \<open>name\<close> and \<open>url\<close>, which
  \<open>display_current_links\<close> reads; the key \<open>icon\<close> may be missing.
\<close>

definition is_link :: "json \<Rightarrow> bool" where
  "is_link x = (case x of
                  JObj kvs \<Rightarrow> map_of kvs ''name'' \<noteq> None \<and> map_of kvs ''url'' \<noteq> None
                | _ \<Rightarrow> False)"

definition links_ok :: "json list \<Rightarrow> addr list \<Rightarrow> bool" where
  "links_ok h as = list_all (\<lambda>a. is_link (deref h a)) as"

text \<open>
  A flat list of records: \<open>links\<close> is a list, every entry of it is an object, and no
  field of such an object is itself a list or an object.
\<close>

definition is_scalar :: "json \<Rightarrow> bool" where
  "is_scalar x = (case x of JList _ \<Rightarrow> False | JObj _ \<Rightarrow> False | _ \<Rightarrow> True)"

definition is_record :: "json \<Rightarrow> bool" where
  "is_record x = (case x of JObj kvs \<Rightarrow> list_all (\<lambda>kv. is_scalar (snd kv)) kvs | _ \<Rightarrow> False)"

definition flat_links :: "world \<Rightarrow> bool" where
  "flat_links w = (case links (cfg w) of
                     None \<Rightarrow> False
                   | Some as \<Rightarrow> list_all (\<lambda>a. is_record (deref (heap w) a)) as)"

definition keys :: "json \<Rightarrow> string list" where
  "keys x = (case x of JObj kvs \<Rightarrow> map fst kvs | _ \<Rightarrow> [])"

text \<open>
  The list is flat, and every object has at least the keys it had in the store \<open>h0\<close>,
  in the same order.
\<close>

abbreviation keeps_flat :: "json list \<Rightarrow> world \<Rightarrow> bool" where
  "keeps_flat h0 w \<equiv>
     flat_links w \<and> (\<forall>b. prefix (keys (deref h0 b)) (keys (deref (heap w) b)))"

text \<open>A property of the state that a program keeps, however it ends.\<close>

definition preserves :: "(world \<Rightarrow> bool) \<Rightarrow> 'a prog \<Rightarrow> bool" where
  "preserves P m \<longleftrightarrow> (\<forall>w. P w \<longrightarrow> P (snd (m w)))"


text \<open>
  A state for examples: the given lines of text as input, the given list and store, no
  config.json on disk, every command succeeding.
\<close>

definition session :: "string list \<Rightarrow> addr list \<Rightarrow> json list \<Rightarrow> world" where
  "session ins as h =
     \<lparr>stdin = map Text ins, config_file = None, cfg = \<lparr>links = Some as, others = []\<rparr>, heap = h,
      writes = [], subprocess = (\<lambda>_. Exit0), commands = [], clock = ''2024-01-01 00:00''\<rparr>"

definition two_links :: "json list" where
  "two_links =
     [JObj [(''name'', JStr ''Home''), (''url'', JStr ''index.html'')],
      JObj [(''name'', JStr ''Blog''), (''url'', JStr ''https://blog.example''),
            (''icon'', JStr ''fas fa-globe'')]]"

section \<open>Properties\<close>

subsection \<open>Running a program step by step\<close>

lemma seq_ret [simp]: "seq (ret x) f = f x"
  by (simp add: seq_def ret_def)

lemma seq_lift_Inr [simp]: "seq (lift (Inr x)) f = f x"
  by (simp add: seq_def lift_def)

lemma seq_lift_Inl [simp]: "seq (lift (Inl e)) f = raise e"
  by (simp add: seq_def lift_def raise_def)

lemma py_int_error: "py_int s = Inl e \<Longrightarrow> e = ValueError"
  by (auto simp: py_int_def split: list.splits if_splits option.splits)

text \<open>
  \<open>int\<close> on the raw line: the character 31 is whitespace for \<open>str.strip\<close> but not
  for \<open>int\<close>, and a number of more than 4300 digits is rejected.
\<close>

lemma py_int_examples:
  "py_int '' 12 '' = Inr 12" "py_int ''-0_7'' = Inr (- 7)" "py_int ''1__0'' = Inl ValueError"
  "py_int [CHR ''2'', CHR 0x1F] = Inl ValueError"
  "py_int (strip [CHR ''2'', CHR 0x1F]) = Inr 2"
  by (simp_all add: py_int_def int_space_def int_digits_def int_max_str_digits_def isdigit_def
      digit_value_def strip_def isspace_def)

lemma py_int_digit_limit:
  assumes "4300 < n"
  shows "py_int (replicate n (CHR ''1'')) = Inl ValueError"
proof -
  obtain m where n: "n = Suc m" using assms by (cases n) auto
  have digit: "isdigit (CHR ''1'')" and no_space: "\<not> int_space (CHR ''1'')"
    by (simp_all add: isdigit_def int_space_def)
  have strip: "rev (dropWhile int_space (rev (dropWhile int_space (replicate n (CHR ''1'')))))
      = CHR ''1'' # replicate m (CHR ''1'')"
    using no_space by (simp add: n dropWhile_append3 flip: replicate_append_same)
  have "int_digits (CHR ''1'' # replicate m (CHR ''1'')) = None"
    using assms digit by (simp add: int_digits_def int_max_str_digits_def n)
  then show ?thesis unfolding py_int_def strip by simp
qed

lemma isinstance_simps [simp]:
  "isinstance e ValueError \<longleftrightarrow> e = ValueError \<or> e = UnicodeDecodeError"
  "isinstance e IndexError \<longleftrightarrow> e = IndexError"
  "isinstance e CalledProcessError \<longleftrightarrow> e = CalledProcessError"
  "isinstance e FileNotFoundError \<longleftrightarrow> e = FileNotFoundError"
  by (auto simp: isinstance_def)

lemma show_links_ok: "links_ok h as \<Longrightarrow> show_links h as = Inr ()"
  by (induction as) (auto simp: links_ok_def is_link_def getitem_def split: json.splits)

lemma display_ok:
  "links (cfg w) = Some as \<Longrightarrow> links_ok (heap w) as \<Longrightarrow> display_current_links w = (Inr (), w)"
  by (simp add: display_current_links_def ret_def seq_def the_links_def show_links_ok)

lemma links_ok_nth: "links_ok h as \<Longrightarrow> i < length as \<Longrightarrow> is_link (deref h (as ! i))"
  by (simp add: links_ok_def list_all_length)

lemma is_link_name: "is_link x \<Longrightarrow> \<exists>v. getitem x ''name'' = Inr v"
  by (auto simp: is_link_def getitem_def split: json.splits)

lemma is_link_url: "is_link x \<Longrightarrow> \<exists>v. getitem x ''url'' = Inr v"
  by (auto simp: is_link_def getitem_def split: json.splits)

lemmas eval_defs =
  session_def two_links_def strip_def isspace_def py_int_def int_space_def int_digits_def
  int_max_str_digits_def isdigit_def digit_value_def links_ok_def is_link_def deref_def

subsection \<open>load_config\<close>

text \<open>
  C3. \<open>load_config\<close> returns what the text of config.json parses to when the file
  exists and its text is valid JSON; it returns the empty configuration
  \<open>{"links": []}\<close> when the file does not exist; and it exits with status 1, returning
  nothing, when the text is not valid JSON. It never changes the state.
\<close>

theorem load_config_spec:
  "(config_file w = Some text \<and> loads text = Some j \<longrightarrow> load_config loads w = (Inr j, w))
   \<and> (config_file w = None \<longrightarrow> load_config loads w = (Inr (JObj [(''links'', JList [])]), w))
   \<and> (config_file w = Some text \<and> loads text = None \<longrightarrow>
        load_config loads w = (Inl (SystemExit 1), w))"
  by (simp add: load_config_def)

theorem load_config_spec_witness:
  "fst (load_config (\<lambda>t. if t = ''{}'' then Some (JObj []) else None)
          ((session [] [] [])\<lparr>config_file := Some ''{}''\<rparr>)) = Inr (JObj [])
   \<and> fst (load_config (\<lambda>t. if t = ''{}'' then Some (JObj []) else None) (session [] [] []))
       = Inr (JObj [(''links'', JList [])])
   \<and> fst (load_config (\<lambda>t. if t = ''{}'' then Some (JObj []) else None)
          ((session [] [] [])\<lparr>config_file := Some ''{''\<rparr>)) = Inl (SystemExit 1)"
  using
    load_config_spec [of "(session [] [] [])\<lparr>config_file := Some ''{}''\<rparr>" "''{}''"
      "\<lambda>t. if t = ''{}'' then Some (JObj []) else None" "JObj []"]
    load_config_spec [of "session [] [] []" "''{}''"
      "\<lambda>t. if t = ''{}'' then Some (JObj []) else None" "JObj []"]
    load_config_spec [of "(session [] [] [])\<lparr>config_file := Some ''{''\<rparr>" "''{''"
      "\<lambda>t. if t = ''{}'' then Some (JObj []) else None" "JObj []"]
  by (simp add: session_def)

subsection \<open>add_new_link\<close>

text \<open>
  C2. \<open>add_new_link\<close> checks nothing but emptiness. With an empty stripped name it
  returns False after one prompt, with an empty stripped URL after two, and the state is
  then unchanged but for the lines read. With a non-empty stripped name and URL, whatever
  they contain, and a links list in the configuration, it returns True and the list is
  the old one followed by one new record. Conversely it returns False only when the
  stripped name or the stripped URL is empty, and then the list and the store are as
  before.
\<close>

theorem add_new_link_spec:
  "(stdin w = Text l1 # r1 \<and> strip l1 = [] \<longrightarrow> add_new_link w = (Inr False, w\<lparr>stdin := r1\<rparr>))
   \<and> (stdin w = Text l1 # Text l2 # r2 \<and> strip l1 \<noteq> [] \<and> strip l2 = [] \<longrightarrow>
        add_new_link w = (Inr False, w\<lparr>stdin := r2\<rparr>))
   \<and> (stdin w = Text l1 # Text l2 # Text l3 # r3 \<and> strip l1 \<noteq> [] \<and> strip l2 \<noteq> [] \<and> links (cfg w) = Some as \<longrightarrow>
        add_new_link w =
          (Inr True,
           w\<lparr>stdin := r3,
             heap := heap w @
               [JObj [(''name'', JStr (strip l1)), (''url'', JStr (strip l2)),
                      (''icon'', JStr (if strip l3 = [] then ''fas fa-link'' else strip l3))]],
             cfg := (cfg w)\<lparr>links := Some (as @ [length (heap w)])\<rparr>\<rparr>))
   \<and> (add_new_link w = (Inr False, w') \<longrightarrow>
        cfg w' = cfg w \<and> heap w' = heap w \<and>
        (\<exists>l1 r1. stdin w = Text l1 # r1 \<and>
           (strip l1 = [] \<or> (\<exists>l2 r2. r1 = Text l2 # r2 \<and> strip l2 = []))))"
proof -
  have empty_name: "stdin w = Text l1 # r1 \<and> strip l1 = [] \<longrightarrow>
      add_new_link w = (Inr False, w\<lparr>stdin := r1\<rparr>)"
    by (simp add: add_new_link_def seq_def input_def ret_def)
  have empty_url: "stdin w = Text l1 # Text l2 # r2 \<and> strip l1 \<noteq> [] \<and> strip l2 = [] \<longrightarrow>
      add_new_link w = (Inr False, w\<lparr>stdin := r2\<rparr>)"
    by (simp add: add_new_link_def seq_def input_def ret_def)
  have added: "stdin w = Text l1 # Text l2 # Text l3 # r3 \<and> strip l1 \<noteq> [] \<and> strip l2 \<noteq> [] \<and> links (cfg w) = Some as \<longrightarrow>
        add_new_link w =
          (Inr True,
           w\<lparr>stdin := r3,
             heap := heap w @
               [JObj [(''name'', JStr (strip l1)), (''url'', JStr (strip l2)),
                      (''icon'', JStr (if strip l3 = [] then ''fas fa-link'' else strip l3))]],
             cfg := (cfg w)\<lparr>links := Some (as @ [length (heap w)])\<rparr>\<rparr>)"
    by (simp add: add_new_link_def seq_def input_def ret_def links_append_def the_links_def)
  have only_if: "add_new_link w = (Inr False, w') \<longrightarrow>
        cfg w' = cfg w \<and> heap w' = heap w \<and>
        (\<exists>l1 r1. stdin w = Text l1 # r1 \<and>
           (strip l1 = [] \<or> (\<exists>l2 r2. r1 = Text l2 # r2 \<and> strip l2 = [])))"
    by (auto simp add: add_new_link_def seq_def input_def ret_def Let_def links_append_def
        the_links_def split: list.splits line.splits if_splits option.splits)
  show ?thesis
    using empty_name empty_url added only_if by (intro conjI) assumption+
qed

theorem add_new_link_spec_witness:
  "add_new_link (session [''  '', ''x''] [] []) = (Inr False, session [''x''] [] [])
   \<and> add_new_link (session [''Blog'', '''', ''x''] [] []) = (Inr False, session [''x''] [] [])
   \<and> add_new_link (session ['' Blog '', ''<not a url>'', ''''] [] []) =
       (Inr True, session [] [0]
          [JObj [(''name'', JStr ''Blog''), (''url'', JStr ''<not a url>''),
                 (''icon'', JStr ''fas fa-link'')]])
   \<and> cfg (session [''x''] [] []) = cfg (session [''  '', ''x''] [] [])"
  using
    add_new_link_spec [where w = "session [''  '', ''x''] [] []" and ?l1.0 = "''  ''"
      and ?r1.0 = "[Text ''x'']" and ?l2.0 = "''x''" and ?r2.0 = "[]" and ?l3.0 = "''''"
      and ?r3.0 = "[]" and as = "[]" and w' = "session [''x''] [] []"]
    add_new_link_spec [where w = "session [''Blog'', '''', ''x''] [] []" and ?l1.0 = "''Blog''"
      and ?r1.0 = "[Text '''', Text ''x'']" and ?l2.0 = "''''" and ?r2.0 = "[Text ''x'']"
      and ?l3.0 = "''x''" and ?r3.0 = "[]" and as = "[]" and w' = "session [''x''] [] []"]
    add_new_link_spec [where w = "session ['' Blog '', ''<not a url>'', ''''] [] []"
      and ?l1.0 = "'' Blog ''" and ?r1.0 = "[Text ''<not a url>'', Text '''']"
      and ?l2.0 = "''<not a url>''" and ?r2.0 = "[Text '''']" and ?l3.0 = "''''"
      and ?r3.0 = "[]" and as = "[]" and w' = "session [] [] []"]
  by (simp add: eval_defs)

subsection \<open>remove_link\<close>

text \<open>
  C7. On a non-empty list of \<open>n\<close> links, when the line entered is an integer for \<open>int\<close>,
  of value \<open>k\<close> with \<open>1 \<le> k \<le> n\<close>, \<open>remove_link\<close> returns True and the list is the
  old one without its \<open>k\<close>-th entry, the other entries in their old order and no object
  changed. When the integer is out of that range, when \<open>int\<close> rejects the line, and when
  the line does not decode, it returns False and changes nothing but the input read.
\<close>

theorem remove_link_spec:
  assumes "links (cfg w) = Some as" and "as \<noteq> []" and "links_ok (heap w) as"
    and "stdin w = first # rest"
  shows "(first = Text line \<and> py_int line = Inr k \<and> 1 \<le> k \<and> k \<le> int (length as) \<longrightarrow>
            remove_link w =
              (Inr True, w\<lparr>stdin := rest,
                           cfg := (cfg w)\<lparr>links := Some (take (nat k - 1) as @ drop (nat k) as)\<rparr>\<rparr>))
       \<and> (first = Text line \<and> py_int line = Inr k \<and> \<not> (1 \<le> k \<and> k \<le> int (length as)) \<longrightarrow>
            remove_link w = (Inr False, w\<lparr>stdin := rest\<rparr>))
       \<and> (first = Text line \<and> py_int line = Inl e \<longrightarrow>
            remove_link w = (Inr False, w\<lparr>stdin := rest\<rparr>))
       \<and> (first = Undecodable \<longrightarrow> remove_link w = (Inr False, w\<lparr>stdin := rest\<rparr>))"
proof -
  have start: "remove_link w =
      try_except
       (seq input (\<lambda>line.
        seq (lift (py_int line)) (\<lambda>choice.
        seq the_links (\<lambda>as.
        if 1 \<le> choice \<and> choice \<le> int (length as) then
          seq (links_pop (choice - 1)) (\<lambda>removed.
          seq (field removed ''name'') (\<lambda>_. ret True))
        else ret False))))
       [ValueError]
       (ret False) w"
    using assms by (simp add: remove_link_def no_links_def seq_def display_ok)
  have not_int: "first = Text line \<and> py_int line = Inl e \<longrightarrow>
      remove_link w = (Inr False, w\<lparr>stdin := rest\<rparr>)"
  proof
    assume a: "first = Text line \<and> py_int line = Inl e"
    then have "py_int line = Inl ValueError" using py_int_error by blast
    with a show "remove_link w = (Inr False, w\<lparr>stdin := rest\<rparr>)"
      using assms by (simp add: start try_except_def seq_def input_def lift_def raise_def ret_def)
  qed
  have undecodable: "first = Undecodable \<longrightarrow> remove_link w = (Inr False, w\<lparr>stdin := rest\<rparr>)"
    using assms by (simp add: start try_except_def seq_def input_def ret_def)
  have outside: "first = Text line \<and> py_int line = Inr k \<and> \<not> (1 \<le> k \<and> k \<le> int (length as)) \<longrightarrow>
      remove_link w = (Inr False, w\<lparr>stdin := rest\<rparr>)"
    using assms
    by (auto simp add: start try_except_def input_def lift_def the_links_def seq_def ret_def)
  have inside: "first = Text line \<and> py_int line = Inr k \<and> 1 \<le> k \<and> k \<le> int (length as) \<longrightarrow>
      remove_link w =
        (Inr True, w\<lparr>stdin := rest,
                     cfg := (cfg w)\<lparr>links := Some (take (nat k - 1) as @ drop (nat k) as)\<rparr>\<rparr>)"
  proof
    assume k: "first = Text line \<and> py_int line = Inr k \<and> 1 \<le> k \<and> k \<le> int (length as)"
    then have idx: "nat (k - 1) < length as" by auto
    have "is_link (deref (heap w) (as ! nat (k - 1)))"
      using links_ok_nth [OF assms(3) idx] .
    then obtain v where v: "getitem (deref (heap w) (as ! nat (k - 1))) ''name'' = Inr v"
      using is_link_name by blast
    have eq: "nat (k - 1) = nat k - Suc 0" "Suc (nat k - Suc 0) = nat k" using k by auto
    show "remove_link w =
              (Inr True, w\<lparr>stdin := rest,
                           cfg := (cfg w)\<lparr>links := Some (take (nat k - 1) as @ drop (nat k) as)\<rparr>\<rparr>)"
      using assms k idx [unfolded eq] v [unfolded eq]
      by (simp add: start try_except_def input_def the_links_def seq_def ret_def
          links_pop_def list_index_def lift_def set_links_def field_def eq Let_def)
  qed
  show ?thesis
    using inside outside not_int undecodable by (intro conjI) assumption+
qed

theorem remove_link_spec_witness:
  "remove_link (session [''2''] [0, 1] two_links) = (Inr True, session [] [0] two_links)
   \<and> remove_link (session [''3''] [0, 1] two_links) = (Inr False, session [] [0, 1] two_links)
   \<and> remove_link (session [''two''] [0, 1] two_links) = (Inr False, session [] [0, 1] two_links)
   \<and> remove_link (session [[CHR ''2'', CHR 0x1F]] [0, 1] two_links)
       = (Inr False, session [] [0, 1] two_links)
   \<and> remove_link ((session [] [0, 1] two_links)\<lparr>stdin := [Undecodable]\<rparr>)
       = (Inr False, session [] [0, 1] two_links)"
proof -
  have ok: "links_ok two_links [0, 1]" by (simp add: eval_defs)
  have p2: "py_int ''2'' = Inr 2" and p3: "py_int ''3'' = Inr 3"
    and pt: "py_int ''two'' = Inl ValueError"
    and pu: "py_int [CHR ''2'', CHR 0x1F] = Inl ValueError"
    by (simp_all add: eval_defs)
  show ?thesis
    using
      remove_link_spec [where w = "session [''2''] [0, 1] two_links" and as = "[0, 1]"
        and first = "Text ''2''" and line = "''2''" and rest = "[]" and k = 2 and e = ValueError]
      remove_link_spec [where w = "session [''3''] [0, 1] two_links" and as = "[0, 1]"
        and first = "Text ''3''" and line = "''3''" and rest = "[]" and k = 3 and e = ValueError]
      remove_link_spec [where w = "session [''two''] [0, 1] two_links" and as = "[0, 1]"
        and first = "Text ''two''" and line = "''two''" and rest = "[]" and k = 0
        and e = ValueError]
      remove_link_spec [where w = "session [[CHR ''2'', CHR 0x1F]] [0, 1] two_links"
        and as = "[0, 1]" and first = "Text [CHR ''2'', CHR 0x1F]"
        and line = "[CHR ''2'', CHR 0x1F]" and rest = "[]" and k = 0 and e = ValueError]
      remove_link_spec [where w = "(session [] [0, 1] two_links)\<lparr>stdin := [Undecodable]\<rparr>"
        and as = "[0, 1]" and first = Undecodable and line = "''''" and rest = "[]" and k = 0
        and e = ValueError]
      ok p2 p3 pt pu
    by (simp add: session_def)
qed

subsection \<open>edit_link\<close>

lemma deref_JObj: "deref h a = JObj kvs \<Longrightarrow> a < length h \<and> h ! a = JObj kvs"
  by (auto simp: deref_def split: if_splits)

lemma deref_update: "a < length h \<Longrightarrow> deref (h[a := x]) b = (if b = a then x else deref h b)"
  by (simp add: deref_def)













subsection \<open>The icon of a new link\<close>

text \<open>
  C9. When \<open>add_new_link\<close> gets a non-empty name and URL, it returns True whatever the
  icon line is, and the \<open>icon\<close> of the record it appends is \<open>fas fa-link\<close> when the
  stripped icon line is empty and the stripped icon line otherwise.
\<close>

theorem add_new_link_icon:
  assumes "stdin w = Text l1 # Text l2 # Text l3 # rest" and "strip l1 \<noteq> []" and "strip l2 \<noteq> []"
    and "links (cfg w) = Some as" and "add_new_link w = (r, w')"
  shows "r = Inr True \<and> links (cfg w') = Some (as @ [length (heap w)])
       \<and> getitem (deref (heap w') (length (heap w))) ''icon'' =
           Inr (JStr (if strip l3 = [] then ''fas fa-link'' else strip l3))"
  using assms
  by (auto simp add: add_new_link_def seq_def input_def ret_def links_append_def the_links_def
      deref_def getitem_def)

theorem add_new_link_icon_witness:
  "fst (add_new_link (session [''Docs'', ''docs.html'', ''  ''] [0, 1] two_links)) = Inr True
   \<and> getitem (deref (heap (snd (add_new_link
         (session [''Docs'', ''docs.html'', ''  ''] [0, 1] two_links)))) 2) ''icon''
       = Inr (JStr ''fas fa-link'')
   \<and> fst (add_new_link (session [''Docs'', ''docs.html'', '' fas fa-book''] [0, 1] two_links))
       = Inr True
   \<and> getitem (deref (heap (snd (add_new_link
         (session [''Docs'', ''docs.html'', '' fas fa-book''] [0, 1] two_links)))) 2) ''icon''
       = Inr (JStr ''fas fa-book'')"
proof -
  let ?w1 = "session [''Docs'', ''docs.html'', ''  ''] [0, 1] two_links"
  let ?w2 = "session [''Docs'', ''docs.html'', '' fas fa-book''] [0, 1] two_links"
  have n: "strip ''Docs'' \<noteq> []" and u: "strip ''docs.html'' \<noteq> []"
    by (simp_all add: eval_defs)
  have i1: "stdin ?w1 = [Text ''Docs'', Text ''docs.html'', Text ''  '']"
    and i2: "stdin ?w2 = [Text ''Docs'', Text ''docs.html'', Text '' fas fa-book'']"
    and l1: "links (cfg ?w1) = Some [0, 1]" and l2: "links (cfg ?w2) = Some [0, 1]"
    by (simp_all add: session_def)
  have r1: "add_new_link ?w1 = (fst (add_new_link ?w1), snd (add_new_link ?w1))"
    and r2: "add_new_link ?w2 = (fst (add_new_link ?w2), snd (add_new_link ?w2))"
    by simp_all
  have h: "length (heap ?w1) = 2" "length (heap ?w2) = 2"
    by (simp_all add: session_def two_links_def)
  have s1: "strip ''  '' = []" and s2: "strip '' fas fa-book'' = ''fas fa-book''"
    by (simp_all add: strip_def isspace_def)
  from add_new_link_icon [OF i1 n u l1 r1]
  have a: "fst (add_new_link ?w1) = Inr True"
    and b: "getitem (deref (heap (snd (add_new_link ?w1))) 2) ''icon'' = Inr (JStr ''fas fa-link'')"
    unfolding h s1 by simp_all
  from add_new_link_icon [OF i2 n u l2 r2]
  have c: "fst (add_new_link ?w2) = Inr True"
    and d: "getitem (deref (heap (snd (add_new_link ?w2))) 2) ''icon'' = Inr (JStr ''fas fa-book'')"
    unfolding h s2 by simp_all
  show ?thesis using a b c d by simp
qed

subsection \<open>reorder_links\<close>

text \<open>
  C1. \<open>reorder_links\<close> compares the set of the indices entered with the set of all
  indices, so an order that names an index twice is accepted: on two links the order
  \<open>1,1,2\<close> returns True and leaves a list of three entries, the first link twice. The
  result is then not a permutation of the old list, and the indices entered do not name
  every link exactly once, which is what the message of the failing branch asks for.
\<close>

theorem reorder_links_accepts_duplicates:
  "reorder_links (session [''1,1,2''] [0, 1] two_links) = (Inr True, session [] [0, 0, 1] two_links)"
  by (simp add: reorder_links_def no_links_def display_current_links_def seq_def ret_def
      the_links_def getitem_def try_except_def input_def lift_def list_index_def set_links_def
      atLeastLessThanSuc eval_defs) auto

subsection \<open>Failure leaves the list alone\<close>

lemma input_error: "fst (input w) = Inl e \<Longrightarrow> e = EOFError \<or> e = UnicodeDecodeError"
  by (auto simp: input_def split: list.splits line.splits)

lemma getitem_error: "getitem x k = Inl e \<Longrightarrow> e = TypeError \<or> e = KeyError k"
  by (auto simp: getitem_def split: json.splits option.splits)

lemma field_error: "fst (field a k w) = Inl e \<Longrightarrow> e = TypeError \<or> e = KeyError k"
  by (auto simp: field_def dest: getitem_error)

lemma store_error: "fst (store a k v w) = Inl e \<Longrightarrow> e = TypeError"
  by (auto simp: store_def setitem_def split: json.splits)







lemma display_state: "display_current_links w = (r, w1) \<Longrightarrow> w1 = w"
  by (auto simp: display_current_links_def ret_def seq_def the_links_def
      split: if_splits option.splits)





lemmas run_defs =
  no_links_def display_current_links_def seq_def ret_def the_links_def getitem_def
  try_except_def input_def lift_def list_index_def set_links_def raise_def



subsection \<open>Properties of the state that the operations keep\<close>

lemma preservesD: "preserves P m \<Longrightarrow> P w \<Longrightarrow> P (snd (m w))"
  by (simp add: preserves_def)

lemma preserves_ret: "preserves P (ret x)"
  by (simp add: preserves_def ret_def)

lemma preserves_raise: "preserves P (raise e)"
  by (simp add: preserves_def raise_def)

lemma preserves_lift: "preserves P (lift r)"
  by (simp add: preserves_def lift_def)

lemma preserves_seq:
  assumes "preserves P m" and "\<And>x. preserves P (f x)"
  shows "preserves P (seq m f)"
  unfolding preserves_def
proof (intro allI impI)
  fix w assume "P w"
  then have "P (snd (m w))" using assms(1) by (simp add: preserves_def)
  then show "P (snd (seq m f w))"
    using assms(2) by (cases "m w") (auto simp: seq_def preserves_def split: sum.splits)
qed

lemma preserves_try_except:
  assumes "preserves P body" and "preserves P handler"
  shows "preserves P (try_except body errs handler)"
  unfolding preserves_def
proof (intro allI impI)
  fix w assume "P w"
  then have "P (snd (body w))" using assms(1) by (simp add: preserves_def)
  then show "P (snd (try_except body errs handler w))"
    using assms(2) by (cases "body w") (auto simp: try_except_def preserves_def split: sum.splits)
qed

lemma preserves_if:
  "preserves P m \<Longrightarrow> preserves P m' \<Longrightarrow> preserves P (if c then m else m')"
  by simp

lemma preserves_guard:
  "preserves P m \<Longrightarrow> preserves P m' \<Longrightarrow> preserves P (\<lambda>w. if c w then m w else m' w)"
  by (simp add: preserves_def)

lemma preserves_case_ctl:
  "preserves P m \<Longrightarrow> preserves P m' \<Longrightarrow>
   preserves P (case c of Continue \<Rightarrow> m | Break \<Rightarrow> m')"
  by (cases c) simp_all

lemma preserves_input:
  "(\<And>w l ls. P w \<Longrightarrow> stdin w = l # ls \<Longrightarrow> P (w\<lparr>stdin := ls\<rparr>)) \<Longrightarrow> preserves P input"
  by (auto simp: preserves_def input_def split: list.splits line.splits)

lemma preserves_the_links: "preserves P the_links"
  by (auto simp: preserves_def the_links_def split: option.splits)

lemma preserves_field: "preserves P (field a k)"
  by (simp add: preserves_def field_def)

lemma preserves_now: "preserves P now"
  by (simp add: preserves_def now_def)

lemma preserves_display: "preserves P display_current_links"
  by (auto simp: preserves_def display_current_links_def ret_def seq_def the_links_def
      split: option.splits)

lemma preserves_store:
  "(\<And>w kvs. P w \<Longrightarrow> deref (heap w) a = JObj kvs \<Longrightarrow>
      P (w\<lparr>heap := (heap w)[a := JObj (AList.update k v kvs)]\<rparr>)) \<Longrightarrow>
   preserves P (store a k v)"
  by (auto simp: preserves_def store_def setitem_def split: json.splits)

lemma preserves_set_links:
  "(\<And>w. P w \<Longrightarrow> P (w\<lparr>cfg := (cfg w)\<lparr>links := Some new\<rparr>\<rparr>)) \<Longrightarrow> preserves P (set_links new)"
  by (simp add: preserves_def set_links_def)

lemma preserves_links_append:
  "(\<And>w as. P w \<Longrightarrow> links (cfg w) = Some as \<Longrightarrow>
      P (w\<lparr>heap := heap w @ [obj], cfg := (cfg w)\<lparr>links := Some (as @ [length (heap w)])\<rparr>\<rparr>)) \<Longrightarrow>
   preserves P (links_append obj)"
  by (auto simp: preserves_def links_append_def seq_def the_links_def split: option.splits)

lemma preserves_links_pop:
  "(\<And>w as j. P w \<Longrightarrow> links (cfg w) = Some as \<Longrightarrow> j < length as \<Longrightarrow>
      P (w\<lparr>cfg := (cfg w)\<lparr>links := Some (take j as @ drop (Suc j) as)\<rparr>\<rparr>)) \<Longrightarrow>
   preserves P (links_pop i)"
  by (auto simp: preserves_def links_pop_def seq_def the_links_def lift_def list_index_def
      set_links_def ret_def Let_def split: option.splits)

lemma preserves_run:
  "(\<And>w. P w \<Longrightarrow> P (w\<lparr>commands := commands w @ [args]\<rparr>)) \<Longrightarrow> preserves P (run args)"
  by (auto simp: preserves_def run_def Let_def split: proc_result.splits)

lemmas preserves_intros =
  preserves_ret preserves_raise preserves_lift preserves_seq preserves_try_except preserves_if
  preserves_guard preserves_input preserves_the_links preserves_field preserves_now
  preserves_display preserves_store preserves_set_links preserves_links_append
  preserves_links_pop preserves_run

lemma writes_add: "preserves (\<lambda>w. writes w = ws) add_new_link"
  unfolding add_new_link_def Let_def by (intro preserves_intros) simp_all

lemma writes_edit: "preserves (\<lambda>w. writes w = ws) edit_link"
  unfolding edit_link_def edit_fields_def Let_def by (intro preserves_intros) simp_all

lemma writes_remove: "preserves (\<lambda>w. writes w = ws) remove_link"
  unfolding remove_link_def Let_def by (intro preserves_intros) simp_all

lemma writes_reorder: "preserves (\<lambda>w. writes w = ws) reorder_links"
  unfolding reorder_links_def Let_def by (intro preserves_intros) simp_all

lemma writes_git: "preserves (\<lambda>w. writes w = ws \<and> cfg w = c \<and> heap w = h) git_operations"
  unfolding git_operations_def Let_def by (intro preserves_intros) simp_all

lemma preserves_save_config:
  "(\<And>w. P w \<Longrightarrow>
      P (w\<lparr>config_file := Some (dumps (to_json (cfg w) (heap w))),
             writes := writes w @ [dumps (to_json (cfg w) (heap w))]\<rparr>)) \<Longrightarrow>
   preserves P (save_config dumps)"
  by (simp add: preserves_def save_config_def Let_def)

subsection \<open>The main menu writes the file after a successful change\<close>

lemma save_after:
  assumes "preserves (\<lambda>w'. writes w' = writes w) op"
  shows "writes (snd (seq op (\<lambda>ok.
            seq (if ok then save_config dumps else ret ()) (\<lambda>_. ret Continue)) w)) =
         writes w @
           (if fst (op w) = Inr True
            then [dumps (to_json (cfg (snd (op w))) (heap (snd (op w))))] else [])"
proof -
  have same: "writes (snd (op w)) = writes w"
    using preservesD [OF assms, of w] by simp
  show ?thesis
  proof (cases "op w")
    case (Pair r w1)
    with same show ?thesis
      by (cases r) (auto simp: seq_def save_config_def ret_def Let_def)
  qed
qed

text \<open>
  C4. \<open>writes\<close> lists, in order, every text written to config.json. In one pass
  through the menu, choice 1 writes nothing; each of the choices 2 (add), 3 (edit),
  4 (remove) and 5 (reorder) writes the file once, with the configuration as the
  operation left it, when the operation returns True, and writes nothing when it returns
  False or raises; the choices 6 and 7 always write the file once, choice 7 before it
  runs git.
\<close>

theorem menu_choice_writes:
  "writes (snd (menu_choice dumps ''1'' w)) = writes w
   \<and> writes (snd (menu_choice dumps ''2'' w)) =
       writes w @ (if fst (add_new_link w) = Inr True
                   then [dumps (to_json (cfg (snd (add_new_link w))) (heap (snd (add_new_link w))))]
                   else [])
   \<and> writes (snd (menu_choice dumps ''3'' w)) =
       writes w @ (if fst (edit_link w) = Inr True
                   then [dumps (to_json (cfg (snd (edit_link w))) (heap (snd (edit_link w))))]
                   else [])
   \<and> writes (snd (menu_choice dumps ''4'' w)) =
       writes w @ (if fst (remove_link w) = Inr True
                   then [dumps (to_json (cfg (snd (remove_link w))) (heap (snd (remove_link w))))]
                   else [])
   \<and> writes (snd (menu_choice dumps ''5'' w)) =
       writes w @ (if fst (reorder_links w) = Inr True
                   then [dumps (to_json (cfg (snd (reorder_links w))) (heap (snd (reorder_links w))))]
                   else [])
   \<and> writes (snd (menu_choice dumps ''6'' w)) = writes w @ [dumps (to_json (cfg w) (heap w))]
   \<and> writes (snd (menu_choice dumps ''7'' w)) = writes w @ [dumps (to_json (cfg w) (heap w))]"
proof -
  have view: "writes (snd (menu_choice dumps ''1'' w)) = writes w"
  proof -
    have "preserves (\<lambda>w'. writes w' = writes w) (menu_choice dumps ''1'')"
      by (simp add: menu_choice_def) (intro preserves_intros)
    then show ?thesis using preservesD by fastforce
  qed
  have add: "writes (snd (menu_choice dumps ''2'' w)) =
       writes w @ (if fst (add_new_link w) = Inr True
                   then [dumps (to_json (cfg (snd (add_new_link w))) (heap (snd (add_new_link w))))]
                   else [])"
    using save_after [OF writes_add] by (simp add: menu_choice_def)
  have edit: "writes (snd (menu_choice dumps ''3'' w)) =
       writes w @ (if fst (edit_link w) = Inr True
                   then [dumps (to_json (cfg (snd (edit_link w))) (heap (snd (edit_link w))))]
                   else [])"
    using save_after [OF writes_edit] by (simp add: menu_choice_def)
  have remove: "writes (snd (menu_choice dumps ''4'' w)) =
       writes w @ (if fst (remove_link w) = Inr True
                   then [dumps (to_json (cfg (snd (remove_link w))) (heap (snd (remove_link w))))]
                   else [])"
    using save_after [OF writes_remove] by (simp add: menu_choice_def)
  have reorder: "writes (snd (menu_choice dumps ''5'' w)) =
       writes w @ (if fst (reorder_links w) = Inr True
                   then [dumps (to_json (cfg (snd (reorder_links w))) (heap (snd (reorder_links w))))]
                   else [])"
    using save_after [OF writes_reorder] by (simp add: menu_choice_def)
  have save: "writes (snd (menu_choice dumps ''6'' w)) = writes w @ [dumps (to_json (cfg w) (heap w))]"
    by (simp add: menu_choice_def seq_def save_config_def ret_def Let_def)
  have publish: "writes (snd (menu_choice dumps ''7'' w)) = writes w @ [dumps (to_json (cfg w) (heap w))]"
  proof -
    let ?text = "dumps (to_json (cfg w) (heap w))"
    let ?w1 = "w\<lparr>config_file := Some ?text, writes := writes w @ [?text]\<rparr>"
    have "writes (snd (git_operations ?w1)) = writes ?w1"
      using preservesD [OF writes_git [where ws = "writes ?w1" and c = "cfg ?w1" and h = "heap ?w1"],
          where w = ?w1] by simp
    then show ?thesis
      by (cases "git_operations ?w1")
         (auto simp: menu_choice_def seq_def save_config_def ret_def Let_def split: sum.splits)
  qed
  show ?thesis
    using view add edit remove reorder save publish by (intro conjI) assumption+
qed

theorem menu_choice_writes_witness:
  "writes (snd (menu_choice (\<lambda>j. ''{}'') ''1'' (session [] [0, 1] two_links))) = []
   \<and> writes (snd (menu_choice (\<lambda>j. ''{}'') ''4'' (session [''2''] [0, 1] two_links))) = [''{}'']
   \<and> writes (snd (menu_choice (\<lambda>j. ''{}'') ''4'' (session [''9''] [0, 1] two_links))) = []
   \<and> writes (snd (menu_choice (\<lambda>j. ''{}'') ''6'' (session [] [0, 1] two_links))) = [''{}'']
   \<and> writes (snd (menu_choice (\<lambda>j. ''{}'') ''7'' (session [] [0, 1] two_links))) = [''{}'']"
proof -
  have ok: "fst (remove_link (session [''2''] [0, 1] two_links)) = Inr True"
    and no: "fst (remove_link (session [''9''] [0, 1] two_links)) = Inr False"
    by (simp_all add: remove_link_def links_pop_def field_def Let_def run_defs eval_defs)
  show ?thesis
    using ok no
      menu_choice_writes [of "\<lambda>j. ''{}''" "session [] [0, 1] two_links"]
      menu_choice_writes [of "\<lambda>j. ''{}''" "session [''2''] [0, 1] two_links"]
      menu_choice_writes [of "\<lambda>j. ''{}''" "session [''9''] [0, 1] two_links"]
    by (simp add: session_def)
qed

subsection \<open>git_operations\<close>

lemmas git_defs =
  git_operations_def run_def now_def seq_def ret_def try_except_def input_def Let_def CONFIG_FILE_def

lemma git_not_a_repository:
  "subprocess w [''git'', ''status''] \<noteq> Exit0 \<Longrightarrow>
     git_operations w = (Inr False, w\<lparr>commands := commands w @ [[''git'', ''status'']]\<rparr>)"
  by (cases "subprocess w [''git'', ''status'']") (simp_all add: git_defs)

lemma git_steps:
  assumes "stdin w = Text line # rest"
    and "msg = (if strip line = [] then ''Update Vantal Links configuration - '' @ clock w
                else strip line)"
    and "git_operations w = (r, w')"
  shows "(r = Inr True \<longleftrightarrow>
          subprocess w [''git'', ''status''] = Exit0
          \<and> subprocess w [''git'', ''add'', ''config.json''] = Exit0
          \<and> subprocess w [''git'', ''commit'', ''-m'', msg] = Exit0
          \<and> subprocess w [''git'', ''push''] = Exit0)
       \<and> (subprocess w [''git'', ''status''] = Exit0 \<longrightarrow>
            commands w' = commands w @
              [[''git'', ''status''], [''git'', ''add'', ''config.json'']] @
              (if subprocess w [''git'', ''add'', ''config.json''] = Exit0
               then [[''git'', ''commit'', ''-m'', msg]] @
                    (if subprocess w [''git'', ''commit'', ''-m'', msg] = Exit0
                     then [[''git'', ''push'']] else [])
               else []))
       \<and> (subprocess w [''git'', ''status''] = Exit0
            \<and> (subprocess w [''git'', ''add'', ''config.json''] = ExitNonzero
                \<or> subprocess w [''git'', ''add'', ''config.json''] = Exit0
                   \<and> subprocess w [''git'', ''commit'', ''-m'', msg] = ExitNonzero
                \<or> subprocess w [''git'', ''add'', ''config.json''] = Exit0
                   \<and> subprocess w [''git'', ''commit'', ''-m'', msg] = Exit0
                   \<and> subprocess w [''git'', ''push''] = ExitNonzero) \<longrightarrow>
            r = Inr False)"
  using assms
  by (auto simp add: git_defs split: proc_result.splits)

text \<open>
  The second \<open>try\<close> catches CalledProcessError only: were git to vanish after the
  status check, the FileNotFoundError of the next step would leave the function.
\<close>

lemma git_vanishes:
  "fst (git_operations ((session [''x''] [] [])
      \<lparr>subprocess := (\<lambda>args. if args = [''git'', ''status''] then Exit0 else NoSuchProgram)\<rparr>))
     = Inl FileNotFoundError"
  by (simp add: git_defs session_def strip_def isspace_def)

text \<open>
  C5. When \<open>git status\<close> does not succeed, because git is missing or the directory is
  not a repository, \<open>git_operations\<close> returns False and has run nothing else. Otherwise,
  with a line for the commit message on input: it returns True exactly when the status
  check and the three steps all succeed; the commands run are the status check, then
  add, then commit, then push, stopping after the first step that does not succeed; and
  when a step exits with a failure the function returns False.
\<close>

theorem git_operations_spec:
  "(subprocess w [''git'', ''status''] \<noteq> Exit0 \<longrightarrow>
      git_operations w = (Inr False, w\<lparr>commands := commands w @ [[''git'', ''status'']]\<rparr>))
   \<and> (stdin w = Text line # rest
        \<and> msg = (if strip line = [] then ''Update Vantal Links configuration - '' @ clock w
                  else strip line)
        \<and> git_operations w = (r, w') \<longrightarrow>
       (r = Inr True \<longleftrightarrow>
          subprocess w [''git'', ''status''] = Exit0
          \<and> subprocess w [''git'', ''add'', ''config.json''] = Exit0
          \<and> subprocess w [''git'', ''commit'', ''-m'', msg] = Exit0
          \<and> subprocess w [''git'', ''push''] = Exit0)
       \<and> (subprocess w [''git'', ''status''] = Exit0 \<longrightarrow>
            commands w' = commands w @
              [[''git'', ''status''], [''git'', ''add'', ''config.json'']] @
              (if subprocess w [''git'', ''add'', ''config.json''] = Exit0
               then [[''git'', ''commit'', ''-m'', msg]] @
                    (if subprocess w [''git'', ''commit'', ''-m'', msg] = Exit0
                     then [[''git'', ''push'']] else [])
               else []))
       \<and> (subprocess w [''git'', ''status''] = Exit0
            \<and> (subprocess w [''git'', ''add'', ''config.json''] = ExitNonzero
                \<or> subprocess w [''git'', ''add'', ''config.json''] = Exit0
                   \<and> subprocess w [''git'', ''commit'', ''-m'', msg] = ExitNonzero
                \<or> subprocess w [''git'', ''add'', ''config.json''] = Exit0
                   \<and> subprocess w [''git'', ''commit'', ''-m'', msg] = Exit0
                   \<and> subprocess w [''git'', ''push''] = ExitNonzero) \<longrightarrow>
            r = Inr False))"
proof (rule conjI)
  show "subprocess w [''git'', ''status''] \<noteq> Exit0 \<longrightarrow>
      git_operations w = (Inr False, w\<lparr>commands := commands w @ [[''git'', ''status'']]\<rparr>)"
    by (rule impI) (rule git_not_a_repository)
next
  show "stdin w = Text line # rest
        \<and> msg = (if strip line = [] then ''Update Vantal Links configuration - '' @ clock w
                  else strip line)
        \<and> git_operations w = (r, w') \<longrightarrow>
       (r = Inr True \<longleftrightarrow>
          subprocess w [''git'', ''status''] = Exit0
          \<and> subprocess w [''git'', ''add'', ''config.json''] = Exit0
          \<and> subprocess w [''git'', ''commit'', ''-m'', msg] = Exit0
          \<and> subprocess w [''git'', ''push''] = Exit0)
       \<and> (subprocess w [''git'', ''status''] = Exit0 \<longrightarrow>
            commands w' = commands w @
              [[''git'', ''status''], [''git'', ''add'', ''config.json'']] @
              (if subprocess w [''git'', ''add'', ''config.json''] = Exit0
               then [[''git'', ''commit'', ''-m'', msg]] @
                    (if subprocess w [''git'', ''commit'', ''-m'', msg] = Exit0
                     then [[''git'', ''push'']] else [])
               else []))
       \<and> (subprocess w [''git'', ''status''] = Exit0
            \<and> (subprocess w [''git'', ''add'', ''config.json''] = ExitNonzero
                \<or> subprocess w [''git'', ''add'', ''config.json''] = Exit0
                   \<and> subprocess w [''git'', ''commit'', ''-m'', msg] = ExitNonzero
                \<or> subprocess w [''git'', ''add'', ''config.json''] = Exit0
                   \<and> subprocess w [''git'', ''commit'', ''-m'', msg] = Exit0
                   \<and> subprocess w [''git'', ''push''] = ExitNonzero) \<longrightarrow>
            r = Inr False)"
    by (intro impI, elim conjE, rule git_steps)
qed

theorem git_operations_spec_witness:
  "git_operations ((session [] [] [])\<lparr>subprocess := (\<lambda>args. NoSuchProgram)\<rparr>) =
     (Inr False,
      (session [] [] [])\<lparr>subprocess := (\<lambda>args. NoSuchProgram), commands := [[''git'', ''status'']]\<rparr>)
   \<and> fst (git_operations (session ['' new links ''] [] [])) = Inr True
   \<and> commands (snd (git_operations (session ['' new links ''] [] []))) =
       [[''git'', ''status''], [''git'', ''add'', ''config.json''],
        [''git'', ''commit'', ''-m'', ''new links''], [''git'', ''push'']]
   \<and> fst (git_operations ((session [''x''] [] [])
        \<lparr>subprocess := (\<lambda>args. if args = [''git'', ''commit'', ''-m'', ''x''] then ExitNonzero else Exit0)\<rparr>))
       = Inr False
   \<and> commands (snd (git_operations ((session [''x''] [] [])
        \<lparr>subprocess := (\<lambda>args. if args = [''git'', ''commit'', ''-m'', ''x''] then ExitNonzero else Exit0)\<rparr>)))
       = [[''git'', ''status''], [''git'', ''add'', ''config.json''], [''git'', ''commit'', ''-m'', ''x'']]"
proof -
  let ?w1 = "(session [] [] [])\<lparr>subprocess := (\<lambda>args. NoSuchProgram)\<rparr>"
  let ?w2 = "session ['' new links ''] [] []"
  let ?w3 = "(session [''x''] [] [])
        \<lparr>subprocess := (\<lambda>args. if args = [''git'', ''commit'', ''-m'', ''x''] then ExitNonzero else Exit0)\<rparr>"
  have s2: "strip '' new links '' = ''new links''" and s3: "strip ''x'' = ''x''"
    by (simp_all add: strip_def isspace_def)
  have r2: "git_operations ?w2 = (fst (git_operations ?w2), snd (git_operations ?w2))"
    and r3: "git_operations ?w3 = (fst (git_operations ?w3), snd (git_operations ?w3))"
    by simp_all
  show ?thesis
    using
      git_operations_spec [where w = ?w1 and line = "''''" and rest = "[]" and msg = "''''"
        and r = "Inr False" and w' = ?w1]
      git_operations_spec [where w = ?w2 and line = "'' new links ''" and rest = "[]"
        and msg = "''new links''" and r = "fst (git_operations ?w2)"
        and w' = "snd (git_operations ?w2)"]
      git_operations_spec [where w = ?w3 and line = "''x''" and rest = "[]" and msg = "''x''"
        and r = "fst (git_operations ?w3)" and w' = "snd (git_operations ?w3)"]
      r2 r3
    by (simp add: session_def s2 s3)
qed

subsection \<open>The links stay a flat list of records\<close>

lemma is_record_update:
  "is_record (JObj kvs) \<Longrightarrow> is_scalar v \<Longrightarrow> is_record (JObj (AList.update k v kvs))"
  by (induction kvs) (auto simp: is_record_def)

lemma keys_update: "prefix (keys (JObj kvs)) (keys (JObj (AList.update k v kvs)))"
  by (simp add: keys_def update_keys)

lemma deref_append: "deref (h @ [x]) a = (if a = length h then x else deref h a)"
  by (auto simp: deref_def nth_append)

lemma deref_beyond: "deref h (length h) = JNull"
  by (simp add: deref_def)

lemma flat_store:
  assumes "flat_links w \<and> (\<forall>b. prefix (keys (deref h0 b)) (keys (deref (heap w) b)))"
    and "deref (heap w) a = JObj kvs"
  shows "flat_links (w\<lparr>heap := (heap w)[a := JObj (AList.update k (JStr s) kvs)]\<rparr>)
       \<and> (\<forall>b. prefix (keys (deref h0 b))
                 (keys (deref (heap (w\<lparr>heap := (heap w)[a := JObj (AList.update k (JStr s) kvs)]\<rparr>)) b)))"
proof -
  have a: "a < length (heap w)" using deref_JObj [OF assms(2)] by simp
  obtain as where as: "links (cfg w) = Some as"
    and all: "list_all (\<lambda>b. is_record (deref (heap w) b)) as"
    using assms(1) by (auto simp: flat_links_def split: option.splits)
  have "is_record (deref ((heap w)[a := JObj (AList.update k (JStr s) kvs)]) b)"
    if "is_record (deref (heap w) b)" for b
    using that a assms(2) by (auto simp: deref_update is_scalar_def intro: is_record_update)
  then have flat: "flat_links (w\<lparr>heap := (heap w)[a := JObj (AList.update k (JStr s) kvs)]\<rparr>)"
    using as all by (simp add: flat_links_def list_all_iff)
  have "prefix (keys (deref h0 b)) (keys (deref ((heap w)[a := JObj (AList.update k (JStr s) kvs)]) b))"
    for b
  proof (cases "b = a")
    case True
    have "prefix (keys (deref h0 a)) (keys (JObj kvs))" using assms by metis
    then show ?thesis
      using True a keys_update [of kvs k "JStr s"] by (auto simp: deref_update)
  next
    case False
    then show ?thesis using assms(1) a by (simp add: deref_update)
  qed
  with flat show ?thesis by simp
qed

lemma flat_append:
  assumes "flat_links w \<and> (\<forall>b. prefix (keys (deref h0 b)) (keys (deref (heap w) b)))"
    and "links (cfg w) = Some as" and "is_record obj"
  shows "flat_links (w\<lparr>heap := heap w @ [obj],
                       cfg := (cfg w)\<lparr>links := Some (as @ [length (heap w)])\<rparr>\<rparr>)
       \<and> (\<forall>b. prefix (keys (deref h0 b)) (keys (deref (heap w @ [obj]) b)))"
proof -
  have all: "list_all (\<lambda>b. is_record (deref (heap w) b)) as"
    using assms(1,2) by (simp add: flat_links_def)
  have "b \<noteq> length (heap w)" if "is_record (deref (heap w) b)" for b
    using that by (auto simp: deref_beyond is_record_def)
  then have flat: "flat_links (w\<lparr>heap := heap w @ [obj],
                       cfg := (cfg w)\<lparr>links := Some (as @ [length (heap w)])\<rparr>\<rparr>)"
    using all assms(3) by (auto simp: flat_links_def list_all_iff deref_append)
  have "prefix (keys (deref h0 b)) (keys (deref (heap w @ [obj]) b))" for b
  proof (cases "b = length (heap w)")
    case True
    have "prefix (keys (deref h0 b)) (keys (deref (heap w) b))" using assms(1) by blast
    then have "keys (deref h0 b) = []" using True by (simp add: deref_beyond keys_def)
    then show ?thesis by simp
  next
    case False
    then show ?thesis using assms(1) by (simp add: deref_append)
  qed
  with flat show ?thesis by simp
qed

lemma flat_sublist:
  assumes "flat_links w" and "links (cfg w) = Some as" and "set new \<subseteq> set as"
  shows "flat_links (w\<lparr>cfg := (cfg w)\<lparr>links := Some new\<rparr>\<rparr>)"
  using assms by (auto simp: flat_links_def list_all_iff)


lemma flat_stdin: "keeps_flat h0 w \<Longrightarrow> keeps_flat h0 (w\<lparr>stdin := ls\<rparr>)"
  by (auto simp: flat_links_def split: option.splits)

lemma flat_store':
  "keeps_flat h0 w \<Longrightarrow> deref (heap w) a = JObj kvs \<Longrightarrow>
   keeps_flat h0 (w\<lparr>heap := (heap w)[a := JObj (AList.update k (JStr s) kvs)]\<rparr>)"
  using flat_store [of w h0 a kvs k s] by simp

lemma flat_append':
  "keeps_flat h0 w \<Longrightarrow> links (cfg w) = Some as \<Longrightarrow> is_record obj \<Longrightarrow>
   keeps_flat h0 (w\<lparr>heap := heap w @ [obj],
                    cfg := (cfg w)\<lparr>links := Some (as @ [length (heap w)])\<rparr>\<rparr>)"
  using flat_append [of w h0 as obj] by simp

lemma flat_pop:
  "keeps_flat h0 w \<Longrightarrow> links (cfg w) = Some as \<Longrightarrow>
   keeps_flat h0 (w\<lparr>cfg := (cfg w)\<lparr>links := Some (take j as @ drop (Suc j) as)\<rparr>\<rparr>)"
proof -
  assume p: "keeps_flat h0 w" and as: "links (cfg w) = Some as"
  have "set (take j as @ drop (Suc j) as) \<subseteq> set as"
    using set_take_subset [of j as] set_drop_subset [of "Suc j" as] by auto
  with p as show ?thesis using flat_sublist [of w as "take j as @ drop (Suc j) as"] by simp
qed

lemma flat_add: "preserves (keeps_flat h0) add_new_link"
  unfolding add_new_link_def Let_def
  apply (intro preserves_intros)
     apply (erule flat_stdin)+
  apply (erule (1) flat_append')
  apply (simp add: is_record_def is_scalar_def)
  done

lemma flat_edit: "preserves (keeps_flat h0) edit_link"
  unfolding edit_link_def edit_fields_def Let_def
  apply (intro preserves_intros)
  apply (erule flat_stdin | erule (1) flat_store')+
  done

lemma flat_remove: "preserves (keeps_flat h0) remove_link"
  unfolding remove_link_def Let_def
  apply (intro preserves_intros)
  apply (erule flat_stdin | erule (1) flat_pop)+
  done

lemma pick_subset: "pick xs is = Inr ys \<Longrightarrow> set ys \<subseteq> set xs"
proof (induction "is" arbitrary: ys)
  case Nil
  then show ?case by simp
next
  case (Cons i "is")
  then show ?case
    by (auto simp: list_index_def split: sum.splits if_splits)
qed

lemma reorder_effect:
  assumes "reorder_links w = (r, w')"
  shows "heap w' = heap w \<and>
         (case links (cfg w') of
            None \<Rightarrow> links (cfg w) = None
          | Some new \<Rightarrow> \<exists>as. links (cfg w) = Some as \<and> set new \<subseteq> set as)"
  using assms
  by (auto simp: reorder_links_def ret_def seq_def try_except_def input_def lift_def
      the_links_def set_links_def Let_def raise_def
      dest!: display_state pick_subset
      split: if_splits prod.splits sum.splits list.splits line.splits option.splits)

lemma flat_reorder: "preserves (keeps_flat h0) reorder_links"
  unfolding preserves_def
proof (intro allI impI)
  fix w assume p: "keeps_flat h0 w"
  obtain r w' where run: "reorder_links w = (r, w')" by (cases "reorder_links w")
  from reorder_effect [OF run] p have "keeps_flat h0 w'"
    by (auto simp: flat_links_def list_all_iff split: option.splits)
  with run show "keeps_flat h0 (snd (reorder_links w))" by simp
qed

text \<open>
  C6. When \<open>links\<close> is a list whose entries are objects with no list or object among
  their field values, it still is one after \<open>add_new_link\<close>, \<open>edit_link\<close>,
  \<open>remove_link\<close> or \<open>reorder_links\<close>, whether the operation returns True or False
  or raises. No object loses a key or has its keys reordered: the keys it had are a
  prefix of the keys it has afterwards.
\<close>

theorem flat_links_preserved:
  assumes "flat_links w"
    and "op = add_new_link \<or> op = edit_link \<or> op = remove_link \<or> op = reorder_links"
  shows "flat_links (snd (op w))
       \<and> (\<forall>a. prefix (keys (deref (heap w) a)) (keys (deref (heap (snd (op w))) a)))"
proof -
  have "preserves (keeps_flat (heap w)) op"
    using assms(2) flat_add flat_edit flat_remove flat_reorder by blast
  moreover have "keeps_flat (heap w) w" using assms(1) by simp
  ultimately show ?thesis by (rule preservesD)
qed

theorem flat_links_preserved_witness:
  "flat_links (session [''Docs'', ''docs.html'', ''''] [0, 1] two_links)
   \<and> flat_links (snd (add_new_link (session [''Docs'', ''docs.html'', ''''] [0, 1] two_links)))
   \<and> flat_links (snd (edit_link (session [''1'', ''Start'', '''', ''''] [0, 1] two_links)))
   \<and> flat_links (snd (remove_link (session [''1''] [0, 1] two_links)))
   \<and> flat_links (snd (reorder_links (session [''2,1''] [0, 1] two_links)))"
proof -
  have flat: "flat_links (session ins [0, 1] two_links)" for ins
    by (simp add: flat_links_def is_record_def is_scalar_def eval_defs)
  show ?thesis
    using flat
      flat_links_preserved [of "session [''Docs'', ''docs.html'', ''''] [0, 1] two_links" add_new_link]
      flat_links_preserved [of "session [''1'', ''Start'', '''', ''''] [0, 1] two_links" edit_link]
      flat_links_preserved [of "session [''1''] [0, 1] two_links" remove_link]
      flat_links_preserved [of "session [''2,1''] [0, 1] two_links" reorder_links]
    by simp
qed

subsection \<open>The main loop ends\<close>

lemma reads_menu_choice: "preserves (\<lambda>w. length (stdin w) \<le> n) (menu_choice dumps choice)"
  unfolding menu_choice_def add_new_link_def edit_link_def edit_fields_def remove_link_def
    reorder_links_def git_operations_def Let_def
  by (intro preserves_intros preserves_save_config) simp_all

lemma menu_round_reads:
  assumes "menu_round dumps w = (Inr ctl, w')"
  shows "length (stdin w') < length (stdin w)"
proof (cases "stdin w")
  case Nil
  with assms show ?thesis by (simp add: menu_round_def seq_def input_def)
next
  case (Cons first ls)
  show ?thesis
  proof (cases first)
    case Undecodable
    with assms Cons show ?thesis by (simp add: menu_round_def seq_def input_def)
  next
    case (Text l)
    let ?w1 = "w\<lparr>stdin := ls\<rparr>"
    obtain r w2 where choice: "menu_choice dumps (strip l) ?w1 = (r, w2)"
      by (cases "menu_choice dumps (strip l) ?w1")
    have "length (stdin (snd (menu_choice dumps (strip l) ?w1))) \<le> length ls"
      using preservesD [OF reads_menu_choice [where n = "length ls"], where w = ?w1] by simp
    with choice have le: "length (stdin w2) \<le> length ls" by simp
    from assms Cons Text choice have "length (stdin w') \<le> length (stdin w2)"
      by (auto simp: menu_round_def seq_def input_def ret_def
          split: sum.splits loop_ctl.splits list.splits line.splits)
    with le Cons show ?thesis by simp
  qed
qed

termination main_loop
  apply (relation "measure (\<lambda>(dumps, w). length (stdin w))")
   apply simp
  apply (simp add: menu_round_reads [OF sym])
  done

text \<open>
  A session: remove link 2, press Enter, exit. The file is written once, and the loop
  returns.
\<close>

lemma main_loop_example:
  "fst (main_loop (\<lambda>j. ''{}'') (session [''4'', ''2'', '''', ''8''] [0, 1] two_links)) = Inr ()
   \<and> writes (snd (main_loop (\<lambda>j. ''{}'') (session [''4'', ''2'', '''', ''8''] [0, 1] two_links)))
       = [''{}'']"
  by (simp add: menu_round_def menu_choice_def remove_link_def links_pop_def field_def
      save_config_def Let_def run_defs eval_defs)

end
